theory Spec2Isabelle
  imports Complex_Main "HOL-Library.AList" "HOL-Library.Sublist"
begin

section \<open>Data model\<close>

text \<open>
  The module \<^verbatim>\<open>data_validation/__main__.py\<close> turns command-line arguments or a YAML
  document into a list of validation configurations, matches tables between two
  catalogs, and hands the configurations to an external engine.  Exceptions are values:
  every function that can raise returns \<open>error + 'a\<close>, with \<open>Inl\<close> for the exception.
  The first six are the Python exceptions that the module and its libraries raise; the
  last four are the kinds of the spec's taxonomy, which a collaborator may raise and which
  no function of the module raises itself.
\<close>

datatype error =
    KeyError string
  | IndexError
  | TypeError
  | ValueError string
  | FileNotFoundError string
  | JSONDecodeError
  | ConfigurationError string
  | ConnectionError string
  | MatchingError string
  | SerializationError

text \<open>
  A Python \<^verbatim>\<open>dict\<close> keeps insertion order, and the order of the table map decides the
  order of the matcher's output, so a dict is an association list.  \<open>d[k] = v\<close>
  overwrites the value of a key in place and appends a new key at the end, which is
  \<open>AList.update\<close>; \<open>d[k]\<close> raises \<^verbatim>\<open>KeyError\<close> on a missing key.
\<close>

type_synonym ('k, 'v) dict = "('k \<times> 'v) list"

definition dict_keys :: "('k, 'v) dict \<Rightarrow> 'k list" where
  "dict_keys d = map fst d"

definition dict_getitem :: "(string, 'v) dict \<Rightarrow> string \<Rightarrow> error + 'v" where
  "dict_getitem d k = (case map_of d k of None \<Rightarrow> Inl (KeyError k) | Some v \<Rightarrow> Inr v)"

section \<open>Table Catalog Enumerator\<close>

text \<open>
  A client is what \<^verbatim>\<open>_get_all_tables_from_client\<close> uses of it: the two catalog calls,
  each of which may raise.
\<close>

record client =
  list_databases :: "error + string list"
  list_tables :: "string \<Rightarrow> error + string list"

text \<open>
  The table object \<^verbatim>\<open>{CONFIG_SCHEMA_NAME: ..., CONFIG_TABLE_NAME: ...}\<close> is a dict with two
  fixed keys, so a record with these two fields.
\<close>

record table_obj =
  schema_name :: string
  table_name :: string

text \<open>\<^verbatim>\<open>"{}__{}".format(database_name, table_name)\<close>\<close>

definition table_key :: "string \<Rightarrow> string \<Rightarrow> string" where
  "table_key database_name tn = database_name @ ''__'' @ tn"

text \<open>The inner loop, over the tables of one database.\<close>

fun add_tables :: "string \<Rightarrow> string list \<Rightarrow> (string, table_obj) dict \<Rightarrow> (string, table_obj) dict" where
  "add_tables database_name [] table_map = table_map"
| "add_tables database_name (tn # tns) table_map =
     add_tables database_name tns
       (AList.update (table_key database_name tn)
          \<lparr>schema_name = database_name, table_name = tn\<rparr> table_map)"

text \<open>The outer loop, over the databases; a failing \<open>list_tables\<close> call aborts it.\<close>

fun add_databases :: "client \<Rightarrow> string list \<Rightarrow> (string, table_obj) dict \<Rightarrow> error + (string, table_obj) dict" where
  "add_databases c [] table_map = Inr table_map"
| "add_databases c (database_name # dbs) table_map =
     (case list_tables c database_name of
        Inl e \<Rightarrow> Inl e
      | Inr tns \<Rightarrow> add_databases c dbs (add_tables database_name tns table_map))"

definition get_all_tables_from_client :: "client \<Rightarrow> error + (string, table_obj) dict" where
  "get_all_tables_from_client c =
     (case list_databases c of
        Inl e \<Rightarrow> Inl e
      | Inr dbs \<Rightarrow> add_databases c dbs [])"

text \<open>
  The (database, table) pairs of a catalog in enumeration order, used to state what the
  enumerator returns.
\<close>

definition catalog_pairs :: "string list \<Rightarrow> (string \<Rightarrow> string list) \<Rightarrow> (string \<times> string) list" where
  "catalog_pairs dbs tables = concat (map (\<lambda>d. map (\<lambda>t. (d, t)) (tables d)) dbs)"

definition table_entry :: "string \<times> string \<Rightarrow> string \<times> table_obj" where
  "table_entry p = (table_key (fst p) (snd p), \<lparr>schema_name = fst p, table_name = snd p\<rparr>)"

section \<open>Table Matcher\<close>

text \<open>
  The similarity metric is a function of the external \<^verbatim>\<open>jellyfish\<close> library; it is a
  parameter \<open>score\<close> of the matcher.
\<close>

type_synonym similarity = "string \<Rightarrow> string \<Rightarrow> real"

text \<open>
  Modelled from the spec: \<^verbatim>\<open>jellyfish_distance.extract_closest_match\<close>, which is not part
  of the given source.  The spec: for a source key, compute the score against every
  target key, select the target key with the maximum score, ties broken by the
  first-encountered target key; the match exists only if the maximum score is at least
  the cutoff.  \<open>None\<close> is Python's \<^verbatim>\<open>None\<close>.
\<close>

fun max_score_key :: "similarity \<Rightarrow> string \<Rightarrow> string list \<Rightarrow> string option" where
  "max_score_key score search_key [] = None"
| "max_score_key score search_key (t # ts) =
     (case max_score_key score search_key ts of
        None \<Rightarrow> Some t
      | Some b \<Rightarrow> if score search_key t < score search_key b then Some b else Some t)"

definition extract_closest_match :: "similarity \<Rightarrow> string \<Rightarrow> string list \<Rightarrow> real \<Rightarrow> string option" where
  "extract_closest_match score search_key target_list score_cutoff =
     (case max_score_key score search_key target_list of
        None \<Rightarrow> None
      | Some t \<Rightarrow> if score_cutoff \<le> score search_key t then Some t else None)"

text \<open>
  The result dict of the matcher has the two keys of a table object and the two target
  keys.
\<close>

record table_config = table_obj +
  target_schema_name :: string
  target_table_name :: string

text \<open>
  \<^verbatim>\<open>target_table_map[target_key]\<close>: when no match was found the key is \<^verbatim>\<open>None\<close>, which is
  never a key of the table map, and the lookup raises \<^verbatim>\<open>KeyError(None)\<close>.
\<close>

definition target_getitem :: "(string, table_obj) dict \<Rightarrow> string option \<Rightarrow> error + table_obj" where
  "target_getitem target_table_map target_key =
     (case target_key of
        None \<Rightarrow> Inl (KeyError ''None'')
      | Some k \<Rightarrow> dict_getitem target_table_map k)"

text \<open>
  One iteration of the loop of \<^verbatim>\<open>_compare_match_tables\<close>.  The source writes the schema
  name under both \<^verbatim>\<open>CONFIG_SCHEMA_NAME\<close> and \<^verbatim>\<open>CONFIG_TABLE_NAME\<close>, and the target's
  schema name under both target keys; the cutoff passed on is the constant 0.
\<close>

definition match_table :: "similarity \<Rightarrow> (string, table_obj) dict \<Rightarrow> (string, table_obj) dict \<Rightarrow> string \<Rightarrow> error + table_config" where
  "match_table score source_table_map target_table_map source_key =
     (let target_key = extract_closest_match score source_key (dict_keys target_table_map) 0 in
      case dict_getitem source_table_map source_key of
        Inl e \<Rightarrow> Inl e
      | Inr src \<Rightarrow>
          (case target_getitem target_table_map target_key of
             Inl e \<Rightarrow> Inl e
           | Inr tgt \<Rightarrow>
               Inr \<lparr>schema_name = schema_name src,
                    table_name = schema_name src,
                    target_schema_name = schema_name tgt,
                    target_table_name = schema_name tgt\<rparr>))"

fun match_tables :: "similarity \<Rightarrow> (string, table_obj) dict \<Rightarrow> (string, table_obj) dict \<Rightarrow> string list \<Rightarrow> error + table_config list" where
  "match_tables score source_table_map target_table_map [] = Inr []"
| "match_tables score source_table_map target_table_map (source_key # ks) =
     (case match_table score source_table_map target_table_map source_key of
        Inl e \<Rightarrow> Inl e
      | Inr table_config \<Rightarrow>
          (case match_tables score source_table_map target_table_map ks of
             Inl e \<Rightarrow> Inl e
           | Inr table_configs \<Rightarrow> Inr (table_config # table_configs)))"

definition compare_match_tables :: "similarity \<Rightarrow> (string, table_obj) dict \<Rightarrow> (string, table_obj) dict \<Rightarrow> error + table_config list" where
  "compare_match_tables score source_table_map target_table_map =
     match_tables score source_table_map target_table_map (dict_keys source_table_map)"

text \<open>
  A concrete normalised metric for the examples: the length of the common prefix over
  the length of the longer string.
\<close>

definition prefix_score :: similarity where
  "prefix_score a b =
     (if a = [] \<and> b = [] then 1
      else real (length (longest_common_prefix a b)) / real (max (length a) (length b)))"



definition t1_source :: "(string, table_obj) dict" where
  "t1_source = [(''s__t1'', \<lparr>schema_name = ''s'', table_name = ''t1''\<rparr>)]"

definition t1_t2_target :: "(string, table_obj) dict" where
  "t1_t2_target = [(''s__t1'', \<lparr>schema_name = ''s'', table_name = ''t1''\<rparr>),
                   (''s__t2'', \<lparr>schema_name = ''s'', table_name = ''t2''\<rparr>)]"

definition demo_client :: client where
  "demo_client =
     \<lparr>list_databases = Inr [''a'', ''b''],
      list_tables = (\<lambda>d. if d = ''a'' then Inr [''x'', ''y''] else Inr [''y'', ''z''])\<rparr>"

section \<open>Values, arguments and configurations\<close>

text \<open>
  The values that \<^verbatim>\<open>json.loads\<close> returns; \<open>JNull\<close> is Python's \<^verbatim>\<open>None\<close>.  Numbers are
  restricted to integers: no function of the module looks at one.
\<close>

datatype json =
    JNull
  | JBool bool
  | JNum int
  | JStr string
  | JArr "json list"
  | JObj "(string \<times> json) list"

text \<open>
  \<^verbatim>\<open>for x in v\<close>: a list gives its elements, a dict its keys, a string its characters;
  anything else is not iterable.
\<close>

fun py_iter :: "json \<Rightarrow> error + json list" where
  "py_iter (JArr xs) = Inr xs"
| "py_iter (JObj kvs) = Inr (map (\<lambda>kv. JStr (fst kv)) kvs)"
| "py_iter (JStr s) = Inr (map (\<lambda>c. JStr [c]) s)"
| "py_iter v = Inl TypeError"

text \<open>Sequencing of calls that may raise: the first exception ends the sequence.\<close>

fun bind_result :: "error + 'a \<Rightarrow> ('a \<Rightarrow> error + 'b) \<Rightarrow> error + 'b" where
  "bind_result (Inl e) f = Inl e"
| "bind_result (Inr x) f = f x"

text \<open>
  The parsed command line.  Required arguments are strings, optional ones are \<open>None\<close> when
  the flag is absent.  \<^verbatim>\<open>args.type\<close> is \<open>config_type\<close>, the name the source gives it on
  reading; \<^verbatim>\<open>args.count\<close> and \<^verbatim>\<open>args.sum\<close> carry a suffix.
\<close>

record args =
  command :: string
  connect_cmd :: string
  connection_name :: string
  source_conn :: string
  target_conn :: string
  tables_list :: string
  config_type :: string
  count_arg :: "string option"
  sum_arg :: "string option"
  grouped_columns :: "string option"
  result_handler_config :: "string option"
  config_file :: "string option"
  verbose :: bool

text \<open>\<^verbatim>\<open>if args.flag:\<close> on an optional string: \<^verbatim>\<open>None\<close> and the empty string are false.\<close>

definition truthy :: "string option \<Rightarrow> bool" where
  "truthy a = (case a of None \<Rightarrow> False | Some s \<Rightarrow> s \<noteq> [])"

text \<open>
  Modelled from the spec: the \<^verbatim>\<open>AggregateSpec\<close> of the data model, built by methods of
  \<^verbatim>\<open>ConfigManager\<close> that are not part of the given source: a kind, the columns (an explicit
  list, or \<open>None\<close> for all), and an optional type filter.
\<close>

record aggregate_spec =
  kind :: string
  columns :: "string list option"
  type_filter :: "string list option"

text \<open>
  Modelled from the spec: the validation block of the persisted layout (validation type,
  table identity, aggregate list, group-column list), and the \<^verbatim>\<open>ValidationConfig\<close>, which
  is the same dict with the two connections and the result-handler configuration under
  \<^verbatim>\<open>CONFIG_SOURCE_CONN\<close>, \<^verbatim>\<open>CONFIG_TARGET_CONN\<close> and \<^verbatim>\<open>CONFIG_RESULT_HANDLER\<close>.
\<close>

record yaml_block =
  validation_type :: string
  table_identity :: json
  aggregates :: "aggregate_spec list"
  query_groups :: "string list"

record validation_config = yaml_block +
  config_source_conn :: json
  config_target_conn :: json
  config_result_handler :: json

text \<open>
  Modelled from the spec: the \<^verbatim>\<open>ConfigManager\<close> class, which is not part of the given
  source: the configuration, the two client handles and the verbose flag, as its
  constructor \<^verbatim>\<open>ConfigManager(config, source_client, target_client, verbose)\<close> receives
  them.
\<close>

record config_manager =
  config :: validation_config
  source_client :: client
  target_client :: client
  cm_verbose :: bool

definition ConfigManager :: "validation_config \<Rightarrow> client \<Rightarrow> client \<Rightarrow> bool \<Rightarrow> config_manager" where
  "ConfigManager cfg sc tc v =
     \<lparr>config = cfg, source_client = sc, target_client = tc, cm_verbose = v\<rparr>"

text \<open>
  Modelled from the spec: the factory \<^verbatim>\<open>ConfigManager.build_config_manager\<close>: a base
  configuration bound to the resolved connections and the table identity, with no
  aggregate and no group yet.
\<close>

definition build_config_manager ::
  "string \<Rightarrow> json \<Rightarrow> json \<Rightarrow> client \<Rightarrow> client \<Rightarrow> json \<Rightarrow> json \<Rightarrow> bool \<Rightarrow> config_manager" where
  "build_config_manager ctype sconn tconn sclient tclient table rh v =
     ConfigManager
       \<lparr>validation_type = ctype, table_identity = table, aggregates = [], query_groups = [],
        config_source_conn = sconn, config_target_conn = tconn, config_result_handler = rh\<rparr>
       sclient tclient v"

text \<open>
  Modelled from the spec: the property \<^verbatim>\<open>result_handler_config\<close> and the methods
  \<^verbatim>\<open>append_aggregates\<close>, \<^verbatim>\<open>append_query_groups\<close>, \<^verbatim>\<open>build_config_count_aggregate\<close> (the
  full-table count that is injected by default) and \<^verbatim>\<open>get_yaml_validation_block\<close> (the
  configuration without the connections and the result handler) of \<^verbatim>\<open>ConfigManager\<close>.
\<close>

definition cm_result_handler_config :: "config_manager \<Rightarrow> json" where
  "cm_result_handler_config cm = config_result_handler (config cm)"

definition append_aggregates :: "config_manager \<Rightarrow> aggregate_spec list \<Rightarrow> config_manager" where
  "append_aggregates cm aggregate_configs =
     cm\<lparr>config := (config cm)\<lparr>aggregates := aggregates (config cm) @ aggregate_configs\<rparr>\<rparr>"

definition append_query_groups :: "config_manager \<Rightarrow> string list \<Rightarrow> config_manager" where
  "append_query_groups cm groups =
     cm\<lparr>config := (config cm)\<lparr>query_groups := query_groups (config cm) @ groups\<rparr>\<rparr>"

definition build_config_count_aggregate :: "config_manager \<Rightarrow> aggregate_spec" where
  "build_config_count_aggregate cm = \<lparr>kind = ''count'', columns = None, type_filter = None\<rparr>"

definition get_yaml_validation_block :: "config_manager \<Rightarrow> yaml_block" where
  "get_yaml_validation_block cm =
     \<lparr>validation_type = validation_type (config cm),
      table_identity = table_identity (config cm),
      aggregates = aggregates (config cm),
      query_groups = query_groups (config cm)\<rparr>"

text \<open>
  The collaborators of the module, each a function that may raise: connection resolution
  (\<^verbatim>\<open>cli_tools.get_connection\<close>, \<^verbatim>\<open>cli_tools.get_connection_config_from_args\<close>), client
  acquisition (\<^verbatim>\<open>DataValidation.get_data_client\<close>), \<^verbatim>\<open>json.loads\<close>, and the two methods of
  \<^verbatim>\<open>ConfigManager\<close> that read the live table schema.  The column arguments are \<open>JNull\<close>
  for \<^verbatim>\<open>None\<close>.  The functions of the module take them as one record.
\<close>

record env =
  get_connection :: "string \<Rightarrow> error + json"
  get_connection_config_from_args :: "args \<Rightarrow> error + json"
  get_data_client :: "json \<Rightarrow> error + client"
  json_loads :: "string \<Rightarrow> error + json"
  build_config_column_aggregates ::
    "config_manager \<Rightarrow> string \<Rightarrow> json \<Rightarrow> string list option \<Rightarrow> error + aggregate_spec list"
  build_config_grouped_columns :: "config_manager \<Rightarrow> json \<Rightarrow> error + string list"

text \<open>\<^verbatim>\<open>json.loads(x)\<close> for an optional argument: \<^verbatim>\<open>None\<close> is not a string.\<close>

definition loads_optional :: "env \<Rightarrow> string option \<Rightarrow> error + json" where
  "loads_optional e a = (case a of None \<Rightarrow> Inl TypeError | Some s \<Rightarrow> json_loads e s)"

section \<open>Aggregate Config Assembler and Config Manager Builder\<close>

text \<open>\<^verbatim>\<open>col_args = None if flag == "*" else json.loads(flag)\<close>\<close>

definition col_args_of :: "env \<Rightarrow> string option \<Rightarrow> error + json" where
  "col_args_of e flag = (if flag = Some ''*'' then Inr JNull else loads_optional e flag)"

definition get_aggregate_config :: "env \<Rightarrow> args \<Rightarrow> config_manager \<Rightarrow> error + aggregate_spec list" where
  "get_aggregate_config e a cm =
     (let aggregate_configs = [build_config_count_aggregate cm] in
      bind_result
        (if truthy (count_arg a) then
           bind_result (col_args_of e (count_arg a)) (\<lambda>col_args.
           bind_result (build_config_column_aggregates e cm ''count'' col_args None) (\<lambda>more.
             Inr (aggregate_configs @ more)))
         else Inr aggregate_configs)
        (\<lambda>aggregate_configs.
           if truthy (sum_arg a) then
             bind_result (col_args_of e (sum_arg a)) (\<lambda>col_args.
             bind_result (build_config_column_aggregates e cm ''sum'' col_args
                            (Some [''int64'', ''float64''])) (\<lambda>more.
               Inr (aggregate_configs @ more)))
           else Inr aggregate_configs))"

definition build_config_from_args :: "env \<Rightarrow> args \<Rightarrow> config_manager \<Rightarrow> error + config_manager" where
  "build_config_from_args e a cm =
     bind_result (get_aggregate_config e a cm)
       (\<lambda>aggregate_configs.
          let cm1 = append_aggregates cm aggregate_configs in
          if validation_type (config cm1) = ''GroupedColumn'' then
            bind_result (loads_optional e (grouped_columns a))
              (\<lambda>cols.
                 bind_result (build_config_grouped_columns e cm1 cols)
                   (\<lambda>groups. Inr (append_query_groups cm1 groups)))
          else Inr cm1)"

text \<open>The loop over the tables list; \<open>mk\<close> is the call of the factory for one table object.\<close>

fun build_configs :: "env \<Rightarrow> args \<Rightarrow> (json \<Rightarrow> config_manager) \<Rightarrow> json list \<Rightarrow> error + config_manager list" where
  "build_configs e a mk [] = Inr []"
| "build_configs e a mk (table # rest) =
     bind_result (build_config_from_args e a (mk table))
       (\<lambda>cm. bind_result (build_configs e a mk rest) (\<lambda>cms. Inr (cm # cms)))"

definition build_config_managers_from_args :: "env \<Rightarrow> args \<Rightarrow> error + config_manager list" where
  "build_config_managers_from_args e a =
     bind_result (get_connection e (source_conn a)) (\<lambda>sconn.
     bind_result (get_connection e (target_conn a)) (\<lambda>tconn.
     bind_result (if truthy (result_handler_config a)
                  then loads_optional e (result_handler_config a) else Inr JNull) (\<lambda>rh.
     bind_result (get_data_client e sconn) (\<lambda>sclient.
     bind_result (get_data_client e tconn) (\<lambda>tclient.
     bind_result (json_loads e (tables_list a)) (\<lambda>tables.
     bind_result (py_iter tables) (\<lambda>table_objs.
       build_configs e a
         (\<lambda>table. build_config_manager (config_type a) sconn tconn sclient tclient table rh (verbose a))
         table_objs)))))))"

section \<open>YAML Config Codec\<close>

text \<open>
  A document of the persisted layout is a dict with four known top-level keys, of
  different value types, so a record of optional fields: \<open>None\<close> is a key that the
  document does not have.  A result handler that is present and null is \<open>Some JNull\<close>.
  The values under the keys are of the types that the module writes.
\<close>

record yaml_document =
  yaml_source :: "string option"
  yaml_target :: "string option"
  yaml_result_handler :: "json option"
  yaml_validations :: "yaml_block list option"

text \<open>
  Modelled from the spec: the values of \<^verbatim>\<open>consts.YAML_SOURCE\<close>, \<^verbatim>\<open>consts.YAML_TARGET\<close>,
  \<^verbatim>\<open>consts.YAML_RESULT_HANDLER\<close> and \<^verbatim>\<open>consts.YAML_VALIDATIONS\<close>, the top-level keys of the
  persisted layout.
\<close>

definition YAML_SOURCE :: string where
  "YAML_SOURCE = ''source''"

definition YAML_TARGET :: string where
  "YAML_TARGET = ''target''"

definition YAML_RESULT_HANDLER :: string where
  "YAML_RESULT_HANDLER = ''result_handler''"

definition YAML_VALIDATIONS :: string where
  "YAML_VALIDATIONS = ''validations''"

text \<open>
  What \<^verbatim>\<open>yaml.load\<close> returns need not be a mapping: an empty file loads as \<^verbatim>\<open>None\<close>, and
  a file may hold a scalar or a sequence.
\<close>

datatype yaml_value =
    YNull
  | YScalar string
  | YSequence "json list"
  | YMapping yaml_document

text \<open>
  \<^verbatim>\<open>yaml_configs[key]\<close> for one of the four keys, \<open>field\<close> being the field of that key: a
  mapping without the key raises \<^verbatim>\<open>KeyError\<close>; \<^verbatim>\<open>None\<close>, a scalar and a sequence cannot be
  subscripted with a string and raise \<^verbatim>\<open>TypeError\<close>.
\<close>

definition yaml_getitem :: "yaml_value \<Rightarrow> string \<Rightarrow> (yaml_document \<Rightarrow> 'a option) \<Rightarrow> error + 'a" where
  "yaml_getitem yaml_configs key field =
     (case yaml_configs of
        YMapping doc \<Rightarrow> (case field doc of None \<Rightarrow> Inl (KeyError key) | Some v \<Rightarrow> Inr v)
      | _ \<Rightarrow> Inl TypeError)"

text \<open>
  The file system maps a path to what \<^verbatim>\<open>yaml.load\<close> makes of the content of the file:
  the exception that it raises when the content does not parse, or the value that it
  returns.  The YAML library is taken to load what it dumped, so a file that the module
  has written holds the document written.  A path with no file raises on opening.
\<close>

type_synonym files = "string \<Rightarrow> (error + yaml_value) option"

definition get_arg_config_file :: "args \<Rightarrow> error + string" where
  "get_arg_config_file a =
     (if \<not> truthy (config_file a) then Inl (ValueError ''YAML Config File was not supplied.'')
      else Inr (the (config_file a)))"

definition get_yaml_config_from_file :: "files \<Rightarrow> string \<Rightarrow> error + yaml_value" where
  "get_yaml_config_from_file fs config_file_path =
     (case fs config_file_path of
        None \<Rightarrow> Inl (FileNotFoundError config_file_path)
      | Some loaded \<Rightarrow> loaded)"

text \<open>
  The three assignments of the loop of \<^verbatim>\<open>build_config_managers_from_yaml\<close>: the block
  with the connections and the result handler added.
\<close>

definition inject_connections :: "yaml_block \<Rightarrow> json \<Rightarrow> json \<Rightarrow> json \<Rightarrow> validation_config" where
  "inject_connections block sconn tconn rh =
     \<lparr>validation_type = validation_type block,
      table_identity = table_identity block,
      aggregates = aggregates block,
      query_groups = query_groups block,
      config_source_conn = sconn, config_target_conn = tconn, config_result_handler = rh\<rparr>"

text \<open>The loop over the validation blocks; the result handler is read in every iteration.\<close>

fun config_managers_of_blocks ::
  "yaml_value \<Rightarrow> json \<Rightarrow> json \<Rightarrow> client \<Rightarrow> client \<Rightarrow> bool \<Rightarrow> yaml_block list \<Rightarrow> error + config_manager list" where
  "config_managers_of_blocks yaml_configs sconn tconn sclient tclient v [] = Inr []"
| "config_managers_of_blocks yaml_configs sconn tconn sclient tclient v (block # rest) =
     bind_result (yaml_getitem yaml_configs YAML_RESULT_HANDLER yaml_result_handler) (\<lambda>rh.
     bind_result (config_managers_of_blocks yaml_configs sconn tconn sclient tclient v rest) (\<lambda>cms.
       Inr (ConfigManager (inject_connections block sconn tconn rh) sclient tclient v # cms)))"

definition build_config_managers_from_yaml :: "env \<Rightarrow> args \<Rightarrow> files \<Rightarrow> error + config_manager list" where
  "build_config_managers_from_yaml e a fs =
     bind_result (get_arg_config_file a) (\<lambda>config_file_path.
     bind_result (get_yaml_config_from_file fs config_file_path) (\<lambda>yaml_configs.
     bind_result (yaml_getitem yaml_configs YAML_SOURCE yaml_source) (\<lambda>src.
     bind_result (get_connection e src) (\<lambda>sconn.
     bind_result (yaml_getitem yaml_configs YAML_TARGET yaml_target) (\<lambda>tgt.
     bind_result (get_connection e tgt) (\<lambda>tconn.
     bind_result (get_data_client e sconn) (\<lambda>sclient.
     bind_result (get_data_client e tconn) (\<lambda>tclient.
     bind_result (yaml_getitem yaml_configs YAML_VALIDATIONS yaml_validations) (\<lambda>blocks.
       config_managers_of_blocks yaml_configs sconn tconn sclient tclient (verbose a) blocks)))))))))"

text \<open>\<^verbatim>\<open>config_managers[0]\<close> raises \<^verbatim>\<open>IndexError\<close> on the empty list.\<close>

definition convert_config_to_yaml :: "args \<Rightarrow> config_manager list \<Rightarrow> error + yaml_document" where
  "convert_config_to_yaml a config_managers =
     (case config_managers of
        [] \<Rightarrow> Inl IndexError
      | first # _ \<Rightarrow>
          Inr \<lparr>yaml_source = Some (source_conn a),
               yaml_target = Some (target_conn a),
               yaml_result_handler = Some (cm_result_handler_config first),
               yaml_validations = Some (map get_yaml_validation_block config_managers)\<rparr>)"

definition store_yaml_config_file :: "args \<Rightarrow> config_manager list \<Rightarrow> files \<Rightarrow> error + files" where
  "store_yaml_config_file a config_managers fs =
     bind_result (get_arg_config_file a) (\<lambda>config_file_path.
     bind_result (convert_config_to_yaml a config_managers) (\<lambda>yaml_configs.
       Inr (fs(config_file_path \<mapsto> Inr (YMapping yaml_configs)))))"

section \<open>Validation Runner\<close>

text \<open>
  The external engine, \<^verbatim>\<open>DataValidation(config, None, None, verbose).execute()\<close>, is a
  parameter: it takes the configuration, the verbose flag and the state of the outside
  world, and returns the exception it raised, if any, with the new state of the world.
  The state of a run is the files, the world of the engine, and the list of the
  configurations that the engine has been invoked with, in the order of the
  invocations.
\<close>

type_synonym 'w engine = "validation_config \<Rightarrow> bool \<Rightarrow> 'w \<Rightarrow> error option \<times> 'w"

record 'w state =
  files :: files
  world :: 'w
  engine_calls :: "validation_config list"

definition run_validation :: "'w engine \<Rightarrow> config_manager \<Rightarrow> bool \<Rightarrow> 'w state \<Rightarrow> error option \<times> 'w state" where
  "run_validation execute cm v st =
     (case execute (config cm) v (world st) of
        (r, w) \<Rightarrow> (r, st\<lparr>world := w, engine_calls := engine_calls st @ [config cm]\<rparr>))"

fun run_validations :: "'w engine \<Rightarrow> args \<Rightarrow> config_manager list \<Rightarrow> 'w state \<Rightarrow> error option \<times> 'w state" where
  "run_validations execute a [] st = (None, st)"
| "run_validations execute a (cm # cms) st =
     (case run_validation execute cm (verbose a) st of
        (Some e, st') \<Rightarrow> (Some e, st')
      | (None, st') \<Rightarrow> run_validations execute a cms st')"

definition run :: "env \<Rightarrow> 'w engine \<Rightarrow> args \<Rightarrow> 'w state \<Rightarrow> error option \<times> 'w state" where
  "run e execute a st =
     (case build_config_managers_from_args e a of
        Inl err \<Rightarrow> (Some err, st)
      | Inr config_managers \<Rightarrow>
          if truthy (config_file a) then
            (case store_yaml_config_file a config_managers (files st) of
               Inl err \<Rightarrow> (Some err, st)
             | Inr fs \<Rightarrow> (None, st\<lparr>files := fs\<rparr>))
          else run_validations execute a config_managers st)"

section \<open>Connection Registry Operations\<close>

text \<open>
  The connection store is a parameter: \<^verbatim>\<open>cli_tools.list_connections\<close> and
  \<^verbatim>\<open>cli_tools.store_connection\<close> take the state of the store and return the exception
  raised, if any, with the new state.  The state of the command is the store and the
  list of the calls made to client acquisition and to the store.
\<close>

record 's registry =
  list_connections :: "'s \<Rightarrow> error option \<times> 's"
  store_connection :: "string \<Rightarrow> json \<Rightarrow> 's \<Rightarrow> error option \<times> 's"

datatype call = ListConnections | GetDataClient json | StoreConnection string json

record 's conn_state =
  store :: 's
  calls :: "call list"

definition run_connections :: "env \<Rightarrow> 's registry \<Rightarrow> args \<Rightarrow> 's conn_state \<Rightarrow> error option \<times> 's conn_state" where
  "run_connections e reg a st =
     (if connect_cmd a = ''list'' then
        (case list_connections reg (store st) of
           (r, s) \<Rightarrow> (r, \<lparr>store = s, calls = calls st @ [ListConnections]\<rparr>))
      else if connect_cmd a = ''add'' then
        (case get_connection_config_from_args e a of
           Inl err \<Rightarrow> (Some err, st)
         | Inr conn \<Rightarrow>
             (case get_data_client e conn of
                Inl err \<Rightarrow> (Some err, st\<lparr>calls := calls st @ [GetDataClient conn]\<rparr>)
              | Inr c \<Rightarrow>
                  (case store_connection reg (connection_name a) conn (store st) of
                     (r, s) \<Rightarrow>
                       (r, \<lparr>store = s,
                            calls = calls st @ [GetDataClient conn,
                                                StoreConnection (connection_name a) conn]\<rparr>))))
      else
        (Some (ValueError (''Connections Argument '' @ [CHR 0x27] @ connect_cmd a @ [CHR 0x27]
                           @ '' is not supported'')), st))"

section \<open>Concrete collaborators for the examples\<close>

text \<open>The strings of a list of parsed values; anything else in the list is a type error.\<close>

fun column_names :: "json list \<Rightarrow> error + string list" where
  "column_names [] = Inr []"
| "column_names (JStr c # rest) = bind_result (column_names rest) (\<lambda>cs. Inr (c # cs))"
| "column_names (v # rest) = Inl TypeError"

text \<open>
  A \<^verbatim>\<open>json.loads\<close> for the three texts of the examples, a connection store with the
  connections \<open>A\<close> and \<open>B\<close>, a client acquisition that fails on a null descriptor, and
  the column aggregates of tables that have no column, which are none.
\<close>

definition scenario_tables :: string where
  \<open>scenario_tables = ''[{"schema_name": "s", "table_name": "t"}]''\<close>

definition two_tables :: string where
  \<open>two_tables =
     ''[{"schema_name": "s", "table_name": "t"}, {"schema_name": "s", "table_name": "u"}]''\<close>

definition demo_json_loads :: "string \<Rightarrow> error + json" where
  "demo_json_loads s =
     (if s = ''[]'' then Inr (JArr [])
      else if s = scenario_tables
        then Inr (JArr [JObj [(''schema_name'', JStr ''s''), (''table_name'', JStr ''t'')]])
      else if s = two_tables
        then Inr (JArr [JObj [(''schema_name'', JStr ''s''), (''table_name'', JStr ''t'')],
                        JObj [(''schema_name'', JStr ''s''), (''table_name'', JStr ''u'')]])
      else Inl JSONDecodeError)"

definition demo_env :: env where
  "demo_env =
     \<lparr>get_connection =
        (\<lambda>name. if name = ''A'' \<or> name = ''B'' then Inr (JObj [(''name'', JStr name)])
                else Inl (ConnectionError name)),
      get_connection_config_from_args =
        (\<lambda>a. if connection_name a = ''broken'' then Inr JNull
              else Inr (JObj [(''name'', JStr (connection_name a))])),
      get_data_client =
        (\<lambda>conn. if conn = JNull then Inl (ConnectionError ''no client'') else Inr demo_client),
      json_loads = demo_json_loads,
      build_config_column_aggregates = (\<lambda>cm agg_type col_args supported_types. Inr []),
      build_config_grouped_columns = (\<lambda>cm cols. bind_result (py_iter cols) column_names)\<rparr>"

definition demo_args :: args where
  "demo_args =
     \<lparr>command = ''run'', connect_cmd = '''', connection_name = '''',
      source_conn = ''A'', target_conn = ''B'', tables_list = scenario_tables,
      config_type = ''Column'', count_arg = None, sum_arg = None, grouped_columns = None,
      result_handler_config = None, config_file = None, verbose = False\<rparr>"

definition count_all :: aggregate_spec where
  "count_all = \<lparr>kind = ''count'', columns = None, type_filter = None\<rparr>"

definition demo_config :: "string \<Rightarrow> aggregate_spec list \<Rightarrow> validation_config" where
  "demo_config ctype aggs =
     \<lparr>validation_type = ctype,
      table_identity = JObj [(''schema_name'', JStr ''s''), (''table_name'', JStr ''t'')],
      aggregates = aggs, query_groups = [],
      config_source_conn = JObj [(''name'', JStr ''A'')],
      config_target_conn = JObj [(''name'', JStr ''B'')],
      config_result_handler = JNull\<rparr>"

definition demo_cm :: "string \<Rightarrow> config_manager" where
  "demo_cm ctype = ConfigManager (demo_config ctype [count_all]) demo_client demo_client False"

text \<open>
  An engine that counts its invocations in the world and raises on a configuration of
  type \<open>Bad\<close>; a store that is an association list.
\<close>

definition demo_execute :: "nat engine" where
  "demo_execute cfg v w =
     (if validation_type cfg = ''Bad'' then Some (ValueError ''bad'') else None, Suc w)"

definition demo_state :: "nat state" where
  "demo_state = \<lparr>files = Map.empty, world = 0, engine_calls = []\<rparr>"

definition demo_registry :: "(string \<times> json) list registry" where
  "demo_registry =
     \<lparr>list_connections = (\<lambda>s. (None, s)),
      store_connection = (\<lambda>name conn s. (None, AList.update name conn s))\<rparr>"

definition demo_conn_state :: "(string \<times> json) list conn_state" where
  "demo_conn_state = \<lparr>store = [], calls = []\<rparr>"

text \<open>A document without the key \<open>source\<close>.\<close>

definition no_source_document :: yaml_document where
  "no_source_document =
     \<lparr>yaml_source = None, yaml_target = Some ''B'', yaml_result_handler = Some JNull,
      yaml_validations = Some []\<rparr>"

text \<open>Three configurations, the second of which the engine refuses, and the state after it.\<close>

definition demo_cms :: "config_manager list" where
  "demo_cms = [demo_cm ''Column'', demo_cm ''Bad'', demo_cm ''Row'']"

definition demo_failed_state :: "nat state" where
  "demo_failed_state =
     \<lparr>files = Map.empty, world = 2,
      engine_calls = [demo_config ''Column'' [count_all], demo_config ''Bad'' [count_all]]\<rparr>"

text \<open>The arguments of \<^verbatim>\<open>connections add\<close> for a descriptor that yields no client.\<close>

definition broken_add_args :: args where
  "broken_add_args = demo_args\<lparr>connect_cmd := ''add'', connection_name := ''broken''\<rparr>"

text \<open>A document without the key \<open>target\<close>, and the files that hold the two documents.\<close>

definition no_target_document :: yaml_document where
  "no_target_document =
     \<lparr>yaml_source = Some ''A'', yaml_target = None, yaml_result_handler = Some JNull,
      yaml_validations = Some []\<rparr>"

definition no_source_files :: files where
  "no_source_files = [''c.yaml'' \<mapsto> Inr (YMapping no_source_document)]"

definition no_target_files :: files where
  "no_target_files = [''c.yaml'' \<mapsto> Inr (YMapping no_target_document)]"


definition empty_tables_args :: args where
  "empty_tables_args = demo_args\<lparr>tables_list := ''[]'', config_file := Some ''c.yaml''\<rparr>"

definition yaml_args :: args where
  "yaml_args = demo_args\<lparr>command := ''run-config'', config_file := Some ''c.yaml''\<rparr>"


section \<open>Sequencing and the configuration file argument\<close>

lemma bind_result_Inr:
  "bind_result m f = Inr y \<longleftrightarrow> (\<exists>x. m = Inr x \<and> f x = Inr y)"
  by (cases m) auto

lemma config_file_path:
  "truthy (config_file a) \<Longrightarrow> get_arg_config_file a = Inr (the (config_file a))"
  by (simp add: get_arg_config_file_def)

section \<open>Properties of the Table Catalog Enumerator\<close>

text \<open>Assigning a key that the dict does not hold yet appends the entry.\<close>

lemma update_fresh: "k \<notin> fst ` set m \<Longrightarrow> AList.update k v m = m @ [(k, v)]"
  by (induction m) auto

lemma add_tables_fresh:
  "distinct (map fst m @ map (table_key d) ts) \<Longrightarrow>
   add_tables d ts m = m @ map (\<lambda>t. table_entry (d, t)) ts"
proof (induction ts arbitrary: m)
  case Nil
  then show ?case by simp
next
  case (Cons t ts)
  from Cons.prems have fresh: "table_key d t \<notin> fst ` set m"
    by auto
  from Cons.prems have "distinct (map fst (m @ [table_entry (d, t)]) @ map (table_key d) ts)"
    by (auto simp: table_entry_def)
  from Cons.IH [OF this] fresh show ?case
    by (simp add: update_fresh table_entry_def)
qed

lemma catalog_pairs_Nil: "catalog_pairs [] tables = []"
  by (simp add: catalog_pairs_def)

lemma catalog_pairs_Cons:
  "catalog_pairs (d # dbs) tables = map (\<lambda>t. (d, t)) (tables d) @ catalog_pairs dbs tables"
  by (simp add: catalog_pairs_def)

lemma fst_table_entry: "fst (table_entry p) = table_key (fst p) (snd p)"
  by (simp add: table_entry_def)

lemma add_databases_fresh:
  "\<forall>d\<in>set dbs. list_tables c d = Inr (tables d) \<Longrightarrow>
   distinct (map fst m @ map (\<lambda>p. table_key (fst p) (snd p)) (catalog_pairs dbs tables)) \<Longrightarrow>
   add_databases c dbs m = Inr (m @ map table_entry (catalog_pairs dbs tables))"
proof (induction dbs arbitrary: m)
  case Nil
  then show ?case by (simp add: catalog_pairs_Nil)
next
  case (Cons d dbs)
  let ?new = "map (\<lambda>t. table_entry (d, t)) (tables d)"
  let ?rest = "map (\<lambda>p. table_key (fst p) (snd p)) (catalog_pairs dbs tables)"
  have split: "map (\<lambda>p. table_key (fst p) (snd p)) (catalog_pairs (d # dbs) tables)
      = map (table_key d) (tables d) @ ?rest"
    by (simp add: catalog_pairs_Cons comp_def)
  from Cons.prems(2) have all: "distinct (map fst m @ map (table_key d) (tables d) @ ?rest)"
    by (simp only: split)
  then have d1: "distinct (map fst m @ map (table_key d) (tables d))"
    by auto
  have step: "add_tables d (tables d) m = m @ ?new"
    by (rule add_tables_fresh [OF d1])
  have "map fst ?new = map (table_key d) (tables d)"
    by (simp add: fst_table_entry comp_def)
  then have "map fst (m @ ?new) @ ?rest = map fst m @ map (table_key d) (tables d) @ ?rest"
    by simp
  with all have d2: "distinct (map fst (m @ ?new) @ ?rest)"
    by (simp only:)
  from Cons.prems(1) have rest: "\<forall>d\<in>set dbs. list_tables c d = Inr (tables d)" by simp
  from Cons.prems(1) have here: "list_tables c d = Inr (tables d)" by simp
  show ?case
    using Cons.IH [OF rest d2] by (simp add: here step catalog_pairs_Cons)
qed

lemma length_catalog_pairs:
  "\<forall>d\<in>set dbs. length (tables d) = T \<Longrightarrow> length (catalog_pairs dbs tables) = length dbs * T"
  by (induction dbs) (auto simp: catalog_pairs_Nil catalog_pairs_Cons)

text \<open>
  Claim C5.  For a client whose catalog call returns the databases \<open>dbs\<close> (\<open>D\<close> of them)
  and whose table call returns \<open>T\<close> tables for each of them, all composite keys
  \<open>schema__table\<close> distinct, the enumerator returns a map with exactly \<open>D * T\<close> entries:
  for every (database, table) pair, in enumeration order, the key \<open>schema__table\<close> mapped
  to the descriptor with that schema name and table name; the keys are unique and looking
  up the key of a pair gives the descriptor of that pair.
\<close>

theorem enumerator_entries:
  assumes dbs: "list_databases c = Inr dbs"
    and tabs: "\<forall>d\<in>set dbs. list_tables c d = Inr (tables d)"
    and keys: "distinct (map (\<lambda>p. table_key (fst p) (snd p)) (catalog_pairs dbs tables))"
    and D: "length dbs = D"
    and T: "\<forall>d\<in>set dbs. length (tables d) = T"
  shows "get_all_tables_from_client c = Inr (map table_entry (catalog_pairs dbs tables))
    \<and> length (map table_entry (catalog_pairs dbs tables)) = D * T
    \<and> distinct (dict_keys (map table_entry (catalog_pairs dbs tables)))
    \<and> (\<forall>p\<in>set (catalog_pairs dbs tables).
          dict_getitem (map table_entry (catalog_pairs dbs tables)) (table_key (fst p) (snd p))
            = Inr \<lparr>schema_name = fst p, table_name = snd p\<rparr>)"
proof -
  let ?m = "map table_entry (catalog_pairs dbs tables)"
  have fk: "map fst ?m = map (\<lambda>p. table_key (fst p) (snd p)) (catalog_pairs dbs tables)"
    by (simp add: table_entry_def comp_def)
  from keys have dk: "distinct (map fst ?m)" by (simp only: fk)
  from keys have "distinct (map fst ([] :: (string, table_obj) dict) @ map (\<lambda>p. table_key (fst p) (snd p)) (catalog_pairs dbs tables))"
    by simp
  from add_databases_fresh [OF tabs this] have 1: "get_all_tables_from_client c = Inr ?m"
    by (simp add: get_all_tables_from_client_def dbs)
  have 2: "length ?m = D * T"
    using length_catalog_pairs [OF T] D by simp
  have 3: "distinct (dict_keys ?m)"
    using dk by (simp add: dict_keys_def)
  have 4: "dict_getitem ?m (table_key (fst p) (snd p)) = Inr \<lparr>schema_name = fst p, table_name = snd p\<rparr>"
    if "p \<in> set (catalog_pairs dbs tables)" for p
  proof -
    from that have "table_entry p \<in> set ?m" by simp
    then have "(table_key (fst p) (snd p), \<lparr>schema_name = fst p, table_name = snd p\<rparr>) \<in> set ?m"
      by (simp only: table_entry_def)
    with dk have "map_of ?m (table_key (fst p) (snd p)) = Some \<lparr>schema_name = fst p, table_name = snd p\<rparr>"
      by (rule map_of_is_SomeI)
    then show ?thesis by (simp add: dict_getitem_def)
  qed
  from 1 2 3 4 show ?thesis by blast
qed

theorem enumerator_entries_witness:
  "get_all_tables_from_client demo_client =
     Inr [(''a__x'', \<lparr>schema_name = ''a'', table_name = ''x''\<rparr>),
          (''a__y'', \<lparr>schema_name = ''a'', table_name = ''y''\<rparr>),
          (''b__y'', \<lparr>schema_name = ''b'', table_name = ''y''\<rparr>),
          (''b__z'', \<lparr>schema_name = ''b'', table_name = ''z''\<rparr>)]
   \<and> length (map table_entry (catalog_pairs [''a'', ''b'']
         (\<lambda>d. if d = ''a'' then [''x'', ''y''] else [''y'', ''z'']))) = 2 * 2"
  using enumerator_entries [of demo_client "[''a'', ''b'']"
      "\<lambda>d. if d = ''a'' then [''x'', ''y''] else [''y'', ''z'']" 2 2]
  by (simp add: demo_client_def catalog_pairs_def table_entry_def table_key_def)

section \<open>Properties of the Table Matcher\<close>











text \<open>
  Claim C2 at the spec's Scenario B catalogs: the source table is \<open>t1\<close> of schema \<open>s\<close>, the
  target tables are \<open>t1\<close> and \<open>t2\<close> of schema \<open>s\<close>, and the emitted match carries the
  schema name \<open>s\<close> in both table-name fields, which is no table of either catalog.
\<close>

theorem matcher_schema_in_table_field:
  "compare_match_tables prefix_score t1_source t1_t2_target =
     Inr [\<lparr>schema_name = ''s'', table_name = ''s'', target_schema_name = ''s'', target_table_name = ''s''\<rparr>]
   \<and> map (table_name \<circ> snd) t1_source = [''t1'']
   \<and> map (table_name \<circ> snd) t1_t2_target = [''t1'', ''t2'']"
  by (simp add: compare_match_tables_def match_table_def extract_closest_match_def
      target_getitem_def dict_getitem_def dict_keys_def t1_source_def t1_t2_target_def
      prefix_score_def)

section \<open>Properties of the Validation Runner\<close>

text \<open>
  Claim C8.  Whatever the engine does, a run of \<open>run_validations\<close> is a chain of \<open>n\<close>
  invocations of the engine, one for each of the first \<open>n\<close> configurations of the list, in
  list order: the first starts in the world of the initial state, each one starts in the
  world that the one before it left, and the world of the final state is the one that
  the last left.  Every invocation but the last returned; the last returned exactly when
  the run did, and otherwise raised the exception of the run.  When the run returned,
  \<open>n\<close> is the length of the list; when it raised, no later configuration was executed
  and none was retried.  The files are untouched.
\<close>

theorem runner_in_list_order:
  "run_validations execute a cms st = (r, st') \<Longrightarrow>
   \<exists>n ws.
     n \<le> length cms \<and> length ws = Suc n \<and> ws ! 0 = world st \<and> world st' = ws ! n
     \<and> (\<forall>i<n. execute (config (cms ! i)) (verbose a) (ws ! i)
                 = (if Suc i = n then r else None, ws ! Suc i))
     \<and> (r = None \<longrightarrow> n = length cms)
     \<and> (r \<noteq> None \<longrightarrow> 0 < n)
     \<and> engine_calls st' = engine_calls st @ map config (take n cms)
     \<and> files st' = files st"
proof (induction cms arbitrary: st)
  case Nil
  then have "r = None" "st' = st" by simp_all
  then show ?case by (intro exI [of _ 0] exI [of _ "[world st]"]) simp
next
  case (Cons cm cms)
  obtain r1 w1 where ex: "execute (config cm) (verbose a) (world st) = (r1, w1)"
    by (cases "execute (config cm) (verbose a) (world st)")
  define s1 where "s1 = st\<lparr>world := w1, engine_calls := engine_calls st @ [config cm]\<rparr>"
  have step: "run_validation execute cm (verbose a) st = (r1, s1)"
    by (simp add: run_validation_def ex s1_def)
  show ?case
  proof (cases r1)
    case (Some err)
    with Cons.prems step have res: "r = Some err" "st' = s1" by simp_all
    show ?thesis
      using res ex Some
      by (intro exI [of _ 1] exI [of _ "[world st, w1]"]) (simp add: s1_def)
  next
    case None
    with Cons.prems step have rest: "run_validations execute a cms s1 = (r, st')" by simp
    from Cons.IH [OF rest] obtain n ws where n: "n \<le> length cms"
      and len: "length ws = Suc n" and first: "ws ! 0 = world s1" and last: "world st' = ws ! n"
      and chain: "\<forall>i<n. execute (config (cms ! i)) (verbose a) (ws ! i)
                 = (if Suc i = n then r else None, ws ! Suc i)"
      and ok: "r = None \<longrightarrow> n = length cms" and bad: "r \<noteq> None \<longrightarrow> 0 < n"
      and calls: "engine_calls st' = engine_calls s1 @ map config (take n cms)"
      and fs: "files st' = files s1"
      by blast
    have w1: "ws ! 0 = w1" using first by (simp add: s1_def)
    have chain': "execute (config ((cm # cms) ! i)) (verbose a) ((world st # ws) ! i)
                 = (if Suc i = Suc n then r else None, (world st # ws) ! Suc i)"
      if "i < Suc n" for i
    proof (cases i)
      case 0
      have "r = None" if "n = 0" using that bad by auto
      then show ?thesis using 0 ex None w1 by auto
    next
      case (Suc j)
      with that have "j < n" by simp
      with chain Suc show ?thesis by simp
    qed
    have "Suc n \<le> length (cm # cms)" using n by simp
    moreover have "length (world st # ws) = Suc (Suc n)" using len by simp
    moreover have "(world st # ws) ! 0 = world st" by simp
    moreover have "world st' = (world st # ws) ! Suc n" using last by simp
    moreover have "r = None \<longrightarrow> Suc n = length (cm # cms)" using ok by simp
    moreover have "r \<noteq> None \<longrightarrow> 0 < Suc n" by simp
    moreover have "engine_calls st' = engine_calls st @ map config (take (Suc n) (cm # cms))"
      using calls by (simp add: s1_def)
    moreover have "files st' = files st" using fs by (simp add: s1_def)
    ultimately show ?thesis using chain' by blast
  qed
qed

lemma demo_run_fails:
  "run_validations demo_execute demo_args demo_cms demo_state
     = (Some (ValueError ''bad''), demo_failed_state)"
  by (simp add: run_validation_def demo_execute_def demo_state_def demo_cm_def ConfigManager_def
      demo_config_def demo_args_def demo_cms_def demo_failed_state_def)

theorem runner_in_list_order_witness:
  "run_validations demo_execute demo_args demo_cms demo_state
     = (Some (ValueError ''bad''), demo_failed_state)
   \<and> (\<exists>n ws. n \<le> length demo_cms \<and> 0 < n \<and> length ws = Suc n
         \<and> ws ! 0 = world demo_state \<and> world demo_failed_state = ws ! n
         \<and> engine_calls demo_failed_state = engine_calls demo_state @ map config (take n demo_cms))"
proof -
  from runner_in_list_order [OF demo_run_fails]
  have "\<exists>n ws. n \<le> length demo_cms \<and> 0 < n \<and> length ws = Suc n
         \<and> ws ! 0 = world demo_state \<and> world demo_failed_state = ws ! n
         \<and> engine_calls demo_failed_state = engine_calls demo_state @ map config (take n demo_cms)"
    by blast
  with demo_run_fails show ?thesis by simp
qed

section \<open>Properties of the connection commands\<close>

text \<open>
  Claim C9.  For \<^verbatim>\<open>connections add\<close>, once the descriptor is read from the arguments:
  if acquiring a client from it raises, the command raises that exception, the store is
  unchanged, and the only call made is the client acquisition, so the store operation
  was not invoked; if a client is acquired, the calls are the client acquisition followed
  by the store operation for the name and the descriptor, and the result is the result
  of the store operation.
\<close>

theorem add_acquires_client_before_store:
  assumes "connect_cmd a = ''add''"
    and "get_connection_config_from_args e a = Inr conn"
  shows "(\<forall>err. get_data_client e conn = Inl err \<longrightarrow>
            fst (run_connections e reg a st) = Some err
            \<and> store (snd (run_connections e reg a st)) = store st
            \<and> calls (snd (run_connections e reg a st)) = calls st @ [GetDataClient conn])
       \<and> (\<forall>c. get_data_client e conn = Inr c \<longrightarrow>
            run_connections e reg a st =
              (fst (store_connection reg (connection_name a) conn (store st)),
               \<lparr>store = snd (store_connection reg (connection_name a) conn (store st)),
                calls = calls st @ [GetDataClient conn, StoreConnection (connection_name a) conn]\<rparr>))"
  using assms by (auto simp: run_connections_def split: prod.splits)

theorem add_acquires_client_before_store_witness:
  "fst (run_connections demo_env demo_registry broken_add_args demo_conn_state)
     = Some (ConnectionError ''no client'')
   \<and> store (snd (run_connections demo_env demo_registry broken_add_args demo_conn_state)) = []
   \<and> calls (snd (run_connections demo_env demo_registry broken_add_args demo_conn_state))
       = [GetDataClient JNull]"
  using add_acquires_client_before_store [of broken_add_args demo_env JNull demo_registry demo_conn_state]
  by (simp add: demo_env_def demo_args_def demo_conn_state_def broken_add_args_def)

section \<open>Properties of the aggregate assembly\<close>

lemma get_aggregate_config_Inr:
  assumes "get_aggregate_config e a cm = Inr aggs"
  shows "\<exists>more. aggs = build_config_count_aggregate cm # more"
  using assms
  by (auto simp: get_aggregate_config_def Let_def bind_result_Inr split: if_splits)

lemma get_aggregate_config_no_flags:
  "\<not> truthy (count_arg a) \<Longrightarrow> \<not> truthy (sum_arg a) \<Longrightarrow>
   get_aggregate_config e a cm = Inr [build_config_count_aggregate cm]"
  by (simp add: get_aggregate_config_def)

text \<open>
  With the count selector \<open>*\<close> and no sum flag, the list is the default count followed by
  what the builder returns for the type \<open>count\<close>, no column arguments and no type filter.
\<close>

lemma get_aggregate_config_count_star:
  "count_arg a = Some ''*'' \<Longrightarrow> \<not> truthy (sum_arg a) \<Longrightarrow>
   get_aggregate_config e a cm =
     bind_result (build_config_column_aggregates e cm ''count'' JNull None)
       (\<lambda>more. Inr (build_config_count_aggregate cm # more))"
  by (cases "build_config_column_aggregates e cm ''count'' JNull None")
     (simp_all add: get_aggregate_config_def col_args_of_def truthy_def)

lemma build_config_from_args_aggregates:
  assumes "build_config_from_args e a cm = Inr cm'"
  shows "\<exists>aggs. get_aggregate_config e a cm = Inr aggs
           \<and> aggregates (config cm') = aggregates (config cm) @ aggs"
  using assms
  by (auto simp: build_config_from_args_def Let_def bind_result_Inr append_aggregates_def
      append_query_groups_def split: if_splits)

lemma build_configs_aggregates:
  "build_configs e a mk tables = Inr cms \<Longrightarrow>
   \<forall>cm\<in>set cms. \<exists>t\<in>set tables. \<exists>aggs. get_aggregate_config e a (mk t) = Inr aggs
       \<and> aggregates (config cm) = aggregates (config (mk t)) @ aggs"
proof (induction tables arbitrary: cms)
  case Nil
  then show ?case by simp
next
  case (Cons t tables)
  from Cons.prems obtain cm rest where cm: "build_config_from_args e a (mk t) = Inr cm"
    and rest: "build_configs e a mk tables = Inr rest" and cms: "cms = cm # rest"
    by (auto simp: bind_result_Inr)
  from build_config_from_args_aggregates [OF cm] Cons.IH [OF rest] cms
  show ?case by auto
qed

lemma args_path_aggregates:
  assumes "build_config_managers_from_args e a = Inr cms" and "cm \<in> set cms"
  shows "\<exists>cm0 aggs. aggregates (config cm0) = [] \<and> get_aggregate_config e a cm0 = Inr aggs
           \<and> aggregates (config cm) = aggs"
proof -
  from assms(1) obtain mk tables where b: "build_configs e a mk tables = Inr cms"
    and mk: "\<forall>t. aggregates (config (mk t)) = []"
    by (auto simp: build_config_managers_from_args_def bind_result_Inr build_config_manager_def
        ConfigManager_def)
  from build_configs_aggregates [OF b] assms(2) mk show ?thesis by fastforce
qed

text \<open>
  Claim C4.  Every configuration that the argument path assembles carries at least one
  aggregate, and its first aggregate is the full-table count: \<open>get_aggregate_config\<close>
  starts its list with it whatever the flags are, and with no metric flag at all the list
  is exactly this one aggregate.
\<close>

theorem every_config_has_count_aggregate:
  "(build_config_managers_from_args e a = Inr cms \<longrightarrow>
      (\<forall>cm\<in>set cms. aggregates (config cm) \<noteq> []
         \<and> hd (aggregates (config cm)) = \<lparr>kind = ''count'', columns = None, type_filter = None\<rparr>))
   \<and> (get_aggregate_config e a cm0 = Inr aggs \<longrightarrow>
        aggs \<noteq> [] \<and> hd aggs = build_config_count_aggregate cm0)
   \<and> (\<not> truthy (count_arg a) \<and> \<not> truthy (sum_arg a) \<longrightarrow>
        get_aggregate_config e a cm0 = Inr [build_config_count_aggregate cm0])"
proof (intro conjI impI ballI)
  fix cm
  assume b: "build_config_managers_from_args e a = Inr cms" and m: "cm \<in> set cms"
  from args_path_aggregates [OF b m] obtain c aggs
    where "get_aggregate_config e a c = Inr aggs" "aggregates (config cm) = aggs"
    by blast
  with get_aggregate_config_Inr [of e a c aggs]
  obtain more where eq: "aggregates (config cm) = build_config_count_aggregate c # more"
    by auto
  from eq show "aggregates (config cm) \<noteq> []" by simp
  from eq show "hd (aggregates (config cm)) = \<lparr>kind = ''count'', columns = None, type_filter = None\<rparr>"
    by (simp add: build_config_count_aggregate_def)
next
  assume g: "get_aggregate_config e a cm0 = Inr aggs"
  from get_aggregate_config_Inr [OF g] show "aggs \<noteq> []" by auto
  from get_aggregate_config_Inr [OF g] show "hd aggs = build_config_count_aggregate cm0" by auto
next
  assume "\<not> truthy (count_arg a) \<and> \<not> truthy (sum_arg a)"
  then show "get_aggregate_config e a cm0 = Inr [build_config_count_aggregate cm0]"
    by (simp add: get_aggregate_config_no_flags)
qed

lemma demo_args_build:
  "build_config_managers_from_args demo_env demo_args = Inr [demo_cm ''Column'']"
  by (simp add: build_config_managers_from_args_def demo_env_def demo_args_def truthy_def
      demo_json_loads_def scenario_tables_def build_config_manager_def ConfigManager_def build_config_from_args_def
      get_aggregate_config_def append_aggregates_def build_config_count_aggregate_def
      demo_cm_def demo_config_def count_all_def)

theorem every_config_has_count_aggregate_witness:
  "build_config_managers_from_args demo_env demo_args = Inr [demo_cm ''Column'']
   \<and> aggregates (config (demo_cm ''Column'')) = [count_all]
   \<and> get_aggregate_config demo_env demo_args (demo_cm ''Column'') = Inr [count_all]"
  using every_config_has_count_aggregate [of demo_env demo_args "[demo_cm ''Column'']"
      "demo_cm ''Column''" "[count_all]"] demo_args_build
  by (simp add: demo_cm_def demo_config_def ConfigManager_def demo_args_def truthy_def
      build_config_count_aggregate_def count_all_def)

section \<open>Properties of the YAML Config Codec\<close>

text \<open>
  Claim C10.  A run with a configuration file, whose connections resolve, whose clients
  are acquired and whose tables list parses to the empty list, assembles the empty
  configuration list; converting it raises \<^verbatim>\<open>IndexError\<close>, so the run raises
  \<^verbatim>\<open>IndexError\<close> and writes no file.
\<close>

theorem empty_config_list_fails:
  assumes "truthy (config_file a)"
    and "get_connection e (source_conn a) = Inr sconn"
    and "get_connection e (target_conn a) = Inr tconn"
    and "(if truthy (result_handler_config a)
          then loads_optional e (result_handler_config a) else Inr JNull) = Inr rh"
    and "get_data_client e sconn = Inr sclient"
    and "get_data_client e tconn = Inr tclient"
    and "json_loads e (tables_list a) = Inr (JArr [])"
  shows "build_config_managers_from_args e a = Inr []
       \<and> convert_config_to_yaml a [] = Inl IndexError
       \<and> run e execute a st = (Some IndexError, st)"
proof -
  from assms(2-7) have b: "build_config_managers_from_args e a = Inr []"
    by (simp add: build_config_managers_from_args_def)
  have c: "convert_config_to_yaml a [] = Inl IndexError"
    by (simp add: convert_config_to_yaml_def)
  from assms(1) have "store_yaml_config_file a [] (files st) = Inl IndexError"
    by (simp add: store_yaml_config_file_def get_arg_config_file_def c)
  with b assms(1) have "run e execute a st = (Some IndexError, st)"
    by (simp add: run_def)
  with b c show ?thesis by simp
qed

theorem empty_config_list_fails_witness:
  "run demo_env demo_execute empty_tables_args demo_state = (Some IndexError, demo_state)"
  using empty_config_list_fails [of empty_tables_args demo_env
      "JObj [(''name'', JStr ''A'')]" "JObj [(''name'', JStr ''B'')]" JNull
      demo_client demo_client demo_execute demo_state]
  by (simp add: empty_tables_args_def demo_args_def demo_env_def truthy_def demo_json_loads_def)

lemma bind_result_Inl:
  "bind_result m f = Inl err \<longleftrightarrow> m = Inl err \<or> (\<exists>x. m = Inr x \<and> f x = Inl err)"
  by (cases m) auto

text \<open>
  Claim C7, as the code has it.  Let the configuration file load as the value \<open>v\<close>.  When
  \<open>v\<close> is not a mapping, building raises \<^verbatim>\<open>TypeError\<close>.  When \<open>v\<close> is a mapping without
  \<open>source\<close>, building raises \<^verbatim>\<open>KeyError\<close> for \<open>source\<close>.  When it has \<open>source\<close> and no
  \<open>target\<close>, building raises what resolving the source connection raises, and otherwise
  \<^verbatim>\<open>KeyError\<close> for \<open>target\<close>.  When it has both and no \<open>validations\<close>, building raises what
  the first failing step among resolving the two connections and acquiring the two
  clients raises, and otherwise \<^verbatim>\<open>KeyError\<close> for \<open>validations\<close>.  So in all these cases
  building never succeeds, and it raises \<^verbatim>\<open>SerializationError\<close> only when a collaborator
  has raised it.
\<close>

theorem missing_key_raises_key_error:
  assumes path: "truthy (config_file a)"
    and loaded: "fs (the (config_file a)) = Some (Inr v)"
  shows "((\<forall>doc. v \<noteq> YMapping doc) \<longrightarrow>
            build_config_managers_from_yaml e a fs = Inl TypeError)
       \<and> (\<forall>doc. v = YMapping doc \<and> yaml_source doc = None \<longrightarrow>
            build_config_managers_from_yaml e a fs = Inl (KeyError ''source''))
       \<and> (\<forall>doc src. v = YMapping doc \<and> yaml_source doc = Some src \<and> yaml_target doc = None \<longrightarrow>
            build_config_managers_from_yaml e a fs =
              bind_result (get_connection e src) (\<lambda>sconn. Inl (KeyError ''target'')))
       \<and> (\<forall>doc src tgt. v = YMapping doc \<and> yaml_source doc = Some src
              \<and> yaml_target doc = Some tgt \<and> yaml_validations doc = None \<longrightarrow>
            build_config_managers_from_yaml e a fs =
              bind_result (get_connection e src) (\<lambda>sconn.
              bind_result (get_connection e tgt) (\<lambda>tconn.
              bind_result (get_data_client e sconn) (\<lambda>sclient.
              bind_result (get_data_client e tconn) (\<lambda>tclient.
                Inl (KeyError ''validations''))))))
       \<and> ((\<forall>doc. v = YMapping doc \<longrightarrow>
              yaml_source doc = None \<or> yaml_target doc = None \<or> yaml_validations doc = None) \<longrightarrow>
            (\<forall>cms. build_config_managers_from_yaml e a fs \<noteq> Inr cms)
            \<and> (build_config_managers_from_yaml e a fs = Inl SerializationError \<longrightarrow>
                 (\<exists>x. get_connection e x = Inl SerializationError)
                 \<or> (\<exists>c. get_data_client e c = Inl SerializationError)))"
proof -
  let ?build = "build_config_managers_from_yaml e a fs"
  have unfold: "?build =
     bind_result (yaml_getitem v YAML_SOURCE yaml_source) (\<lambda>src.
     bind_result (get_connection e src) (\<lambda>sconn.
     bind_result (yaml_getitem v YAML_TARGET yaml_target) (\<lambda>tgt.
     bind_result (get_connection e tgt) (\<lambda>tconn.
     bind_result (get_data_client e sconn) (\<lambda>sclient.
     bind_result (get_data_client e tconn) (\<lambda>tclient.
     bind_result (yaml_getitem v YAML_VALIDATIONS yaml_validations) (\<lambda>blocks.
       config_managers_of_blocks v sconn tconn sclient tclient (verbose a) blocks)))))))"
    using path loaded
    by (simp add: build_config_managers_from_yaml_def config_file_path
        get_yaml_config_from_file_def)
  have 1: "?build = Inl TypeError" if "\<forall>doc. v \<noteq> YMapping doc"
    using that by (cases v) (simp_all add: unfold yaml_getitem_def)
  have 2: "?build = Inl (KeyError ''source'')"
    if "v = YMapping doc \<and> yaml_source doc = None" for doc
    using that by (simp add: unfold yaml_getitem_def YAML_SOURCE_def)
  have 3: "?build = bind_result (get_connection e src) (\<lambda>sconn. Inl (KeyError ''target''))"
    if "v = YMapping doc \<and> yaml_source doc = Some src \<and> yaml_target doc = None" for doc src
    using that
    by (cases "get_connection e src") (simp_all add: unfold yaml_getitem_def YAML_TARGET_def)
  have 4: "?build =
              bind_result (get_connection e src) (\<lambda>sconn.
              bind_result (get_connection e tgt) (\<lambda>tconn.
              bind_result (get_data_client e sconn) (\<lambda>sclient.
              bind_result (get_data_client e tconn) (\<lambda>tclient.
                Inl (KeyError ''validations'')))))"
    if "v = YMapping doc \<and> yaml_source doc = Some src
        \<and> yaml_target doc = Some tgt \<and> yaml_validations doc = None" for doc src tgt
  proof -
    have inner: "bind_result (get_data_client e tconn) (\<lambda>tclient.
           bind_result (yaml_getitem v YAML_VALIDATIONS yaml_validations) (\<lambda>blocks.
             config_managers_of_blocks v sconn tconn sclient tclient (verbose a) blocks))
         = bind_result (get_data_client e tconn) (\<lambda>tclient. Inl (KeyError ''validations''))"
      for sconn tconn sclient
      using that
      by (cases "get_data_client e tconn") (simp_all add: yaml_getitem_def YAML_VALIDATIONS_def)
    from that show ?thesis
      by (simp add: unfold yaml_getitem_def inner YAML_VALIDATIONS_def)
  qed
  have 5: "(\<forall>cms. ?build \<noteq> Inr cms)
            \<and> (?build = Inl SerializationError \<longrightarrow>
                 (\<exists>x. get_connection e x = Inl SerializationError)
                 \<or> (\<exists>c. get_data_client e c = Inl SerializationError))"
    if missing: "\<forall>doc. v = YMapping doc \<longrightarrow>
              yaml_source doc = None \<or> yaml_target doc = None \<or> yaml_validations doc = None"
  proof (cases "\<exists>doc. v = YMapping doc")
    case False
    with 1 show ?thesis by simp
  next
    case True
    then obtain doc where v: "v = YMapping doc" by blast
    show ?thesis
    proof (cases "yaml_source doc")
      case None
      with 2 v show ?thesis by simp
    next
      case src: (Some src)
      show ?thesis
      proof (cases "yaml_target doc")
        case None
        with 3 [of doc src] v src show ?thesis
          by (auto simp: bind_result_Inr bind_result_Inl)
      next
        case tgt: (Some tgt)
        with missing v src have "yaml_validations doc = None" by auto
        with 4 [of doc src tgt] v src tgt show ?thesis
          by (auto simp: bind_result_Inr bind_result_Inl)
      qed
    qed
  qed
  from 1 2 3 4 5 show ?thesis by blast
qed

theorem missing_key_raises_key_error_witness:
  "build_config_managers_from_yaml demo_env yaml_args no_target_files = Inl (KeyError ''target'')"
  using missing_key_raises_key_error [of yaml_args no_target_files
      "YMapping no_target_document" demo_env]
  by (simp add: yaml_args_def demo_args_def truthy_def no_target_document_def
      no_target_files_def demo_env_def)

text \<open>
  Claim C7, as stated, fails on a document without \<open>source\<close>: the exception is
  \<^verbatim>\<open>KeyError\<close>, not \<^verbatim>\<open>SerializationError\<close>.
\<close>

theorem missing_source_counterexample:
  "build_config_managers_from_yaml demo_env yaml_args no_source_files = Inl (KeyError ''source'')
   \<and> KeyError ''source'' \<noteq> SerializationError"
  by (simp add: build_config_managers_from_yaml_def get_arg_config_file_def yaml_args_def
      demo_args_def truthy_def get_yaml_config_from_file_def no_source_document_def
      no_source_files_def yaml_getitem_def YAML_SOURCE_def)









end
